theory Spec2Isabelle
  imports Complex_Main
begin

section \<open>Python values: exceptions, strings, integers\<close>

text \<open>
  A raised exception is the left injection of a sum; only the exception class is kept,
  not its message. Strings are ASCII character lists: \<open>upper\<close>, \<open>lower\<close> and
  \<open>strip\<close> are modelled on ASCII (Python's Unicode case mappings are outside the model),
  and the general theorems about rule strings assume \<open>is_ascii\<close>.
\<close>

datatype error =
    ValueError
  | TypeError
  | OverflowError
  | IndexError
  | JSONDecodeError
  | AttributeError
  | RequestError
  | EventPublishError


definition is_digit :: "char \<Rightarrow> bool" where
  "is_digit c = (48 \<le> (of_char c :: nat) \<and> (of_char c :: nat) \<le> 57)"

definition digit_val :: "char \<Rightarrow> int" where
  "digit_val c = int (of_char c) - 48"

definition is_space :: "char \<Rightarrow> bool" where
  "is_space c = (let n = (of_char c :: nat) in (9 \<le> n \<and> n \<le> 13) \<or> (28 \<le> n \<and> n \<le> 32))"


definition lower_char :: "char \<Rightarrow> char" where
  "lower_char c = (let n = (of_char c :: nat) in if 65 \<le> n \<and> n \<le> 90 then char_of (n + 32) else c)"


definition lower :: "string \<Rightarrow> string" where
  "lower s = map lower_char s"

definition lstrip :: "string \<Rightarrow> string" where
  "lstrip s = dropWhile is_space s"

definition strip :: "string \<Rightarrow> string" where
  "strip s = rev (dropWhile is_space (rev (dropWhile is_space s)))"

definition startswith :: "string \<Rightarrow> string \<Rightarrow> bool" where
  "startswith s p = (take (length p) s = p)"

definition endswith :: "string \<Rightarrow> string \<Rightarrow> bool" where
  "endswith s p = (length p \<le> length s \<and> drop (length s - length p) s = p)"

text \<open>\<open>s.split(sep)\<close> for a one-character separator: the pieces between the separators.\<close>

fun split_acc :: "char \<Rightarrow> string \<Rightarrow> string \<Rightarrow> string list" where
  "split_acc sep cur [] = [rev cur]"
| "split_acc sep cur (c # cs) =
     (if c = sep then rev cur # split_acc sep [] cs else split_acc sep (c # cur) cs)"

definition split :: "string \<Rightarrow> char \<Rightarrow> string list" where
  "split s sep = split_acc sep [] s"


text \<open>
  \<open>int(s)\<close> in base ten: surrounding whitespace is stripped, one sign is allowed, and
  single underscores may separate digits; anything else is a ValueError.
\<close>

fun int_digits :: "int \<Rightarrow> bool \<Rightarrow> string \<Rightarrow> int option" where
  "int_digits acc prev [] = (if prev then Some acc else None)"
| "int_digits acc prev (c # cs) =
     (if is_digit c then int_digits (acc * 10 + digit_val c) True cs
      else if c = CHR ''_'' \<and> prev then int_digits acc False cs
      else None)"

definition py_int :: "string \<Rightarrow> error + int" where
  "py_int s =
     (case strip s of
        [] \<Rightarrow> Inl ValueError
      | c # cs \<Rightarrow>
          if c = CHR ''-'' then
            (case int_digits 0 False cs of None \<Rightarrow> Inl ValueError | Some n \<Rightarrow> Inr (- n))
          else if c = CHR ''+'' then
            (case int_digits 0 False cs of None \<Rightarrow> Inl ValueError | Some n \<Rightarrow> Inr n)
          else
            (case int_digits 0 False (c # cs) of None \<Rightarrow> Inl ValueError | Some n \<Rightarrow> Inr n))"

text \<open>Zero-padded decimal of a fixed width, as \<open>%0kd\<close> prints a number that fits.\<close>

fun zero_pad :: "nat \<Rightarrow> nat \<Rightarrow> string" where
  "zero_pad 0 n = []"
| "zero_pad (Suc k) n = zero_pad k (n div 10) @ [char_of (48 + n mod 10)]"

section \<open>The datetime library\<close>

text \<open>
  \<open>datetime.datetime\<close> with its calendar fields; \<open>tzinfo\<close> is the fixed UTC offset in
  microseconds of an aware datetime and \<open>None\<close> for a naive one. A \<open>timedelta\<close> is its
  total number of microseconds. The calendar functions follow the standard library's
  proleptic Gregorian ordinal (day 1 is 0001-01-01).
\<close>

record datetime =
  year :: int
  month :: int
  day :: int
  hour :: int
  minute :: int
  second :: int
  microsecond :: int
  tzinfo :: "int option"

type_synonym timedelta = int

definition MINYEAR :: int where "MINYEAR = 1"
definition MAXYEAR :: int where "MAXYEAR = 9999"
definition MAXORDINAL :: int where "MAXORDINAL = 3652059"
definition US_PER_DAY :: int where "US_PER_DAY = 86400000000"

definition is_leap :: "int \<Rightarrow> bool" where
  "is_leap y = (y mod 4 = 0 \<and> (y mod 400 = 0 \<or> y mod 100 \<noteq> 0))"

definition days_before_year :: "int \<Rightarrow> int" where
  "days_before_year y = (let p = y - 1 in p * 365 + p div 4 - p div 100 + p div 400)"

definition month_length :: "bool \<Rightarrow> int \<Rightarrow> int" where
  "month_length leap m =
     (if m = 2 then (if leap then 29 else 28)
      else if m = 4 \<or> m = 6 \<or> m = 9 \<or> m = 11 then 30
      else 31)"

definition month_offset :: "bool \<Rightarrow> int \<Rightarrow> int" where
  "month_offset leap m = sum_list (map (\<lambda>k. month_length leap (int k)) [1..<nat m])"

definition days_in_month :: "int \<Rightarrow> int \<Rightarrow> int" where
  "days_in_month y m = month_length (is_leap y) m"

definition days_before_month :: "int \<Rightarrow> int \<Rightarrow> int" where
  "days_before_month y m = month_offset (is_leap y) m"

definition ymd2ord :: "int \<Rightarrow> int \<Rightarrow> int \<Rightarrow> int" where
  "ymd2ord y m d = days_before_year y + days_before_month y m + d"

definition ord2ymd :: "int \<Rightarrow> int \<times> int \<times> int" where
  "ord2ymd n =
     (let n0 = n - 1;
          n400 = n0 div 146097; r400 = n0 mod 146097;
          n100 = r400 div 36524; r100 = r400 mod 36524;
          n4 = r100 div 1461; r4 = r100 mod 1461;
          n1 = r4 div 365; r1 = r4 mod 365;
          y = n400 * 400 + 1 + n100 * 100 + n4 * 4 + n1
      in if n1 = 4 \<or> n100 = 4 then (y - 1, 12, 31)
         else
           (let leap = (n1 = 3 \<and> (n100 = 3 \<or> n4 \<noteq> 24));
                m = (r1 + 50) div 32;
                preceding = month_offset leap m
            in if preceding > r1
               then (y, m - 1, r1 - (preceding - month_length leap (m - 1)) + 1)
               else (y, m, r1 - preceding + 1)))"

text \<open>The constructor's range checks (ValueError outside them).\<close>

definition valid_fields :: "datetime \<Rightarrow> bool" where
  "valid_fields d =
     (MINYEAR \<le> year d \<and> year d \<le> MAXYEAR \<and> 1 \<le> month d \<and> month d \<le> 12 \<and>
      1 \<le> day d \<and> day d \<le> days_in_month (year d) (month d) \<and>
      0 \<le> hour d \<and> hour d \<le> 23 \<and> 0 \<le> minute d \<and> minute d \<le> 59 \<and>
      0 \<le> second d \<and> second d \<le> 59 \<and> 0 \<le> microsecond d \<and> microsecond d \<le> 999999 \<and>
      (case tzinfo d of None \<Rightarrow> True | Some off \<Rightarrow> - US_PER_DAY < off \<and> off < US_PER_DAY))"

definition new_datetime :: "datetime \<Rightarrow> error + datetime" where
  "new_datetime d = (if valid_fields d then Inr d else Inl ValueError)"

text \<open>Microseconds since the start of day 0, read off the wall-clock fields.\<close>

definition time_of_day :: "datetime \<Rightarrow> int" where
  "time_of_day d = ((hour d * 60 + minute d) * 60 + second d) * 1000000 + microsecond d"

definition wall_us :: "datetime \<Rightarrow> int" where
  "wall_us d = ymd2ord (year d) (month d) (day d) * US_PER_DAY + time_of_day d"

text \<open>
  \<open>timedelta(days=.., minutes=.., weeks=..)\<close>: OverflowError when the normalised number
  of days leaves \<open>\<plusminus>999999999\<close>.
\<close>

definition timedelta :: "int \<Rightarrow> int \<Rightarrow> int \<Rightarrow> error + timedelta" where
  "timedelta days minutes weeks =
     (let us = ((weeks * 7 + days) * 1440 + minutes) * 60000000
      in if - 999999999 * US_PER_DAY \<le> us \<and> us < 1000000000 * US_PER_DAY
         then Inr us else Inl OverflowError)"

text \<open>
  \<open>dt + td\<close> and \<open>dt - td\<close>: wall-clock arithmetic that keeps the tzinfo; OverflowError
  when the result leaves the years 1 to 9999.
\<close>

definition of_wall_us :: "int \<Rightarrow> int option \<Rightarrow> error + datetime" where
  "of_wall_us us tz =
     (let days = us div US_PER_DAY; r = us mod US_PER_DAY
      in if 0 < days \<and> days \<le> MAXORDINAL then
           (case ord2ymd days of
              (y, m, d) \<Rightarrow>
                Inr \<lparr>year = y, month = m, day = d,
                     hour = r div 3600000000, minute = r div 60000000 mod 60,
                     second = r div 1000000 mod 60, microsecond = r mod 1000000,
                     tzinfo = tz\<rparr>)
         else Inl OverflowError)"

definition dt_add :: "datetime \<Rightarrow> timedelta \<Rightarrow> error + datetime" where
  "dt_add d td = of_wall_us (wall_us d + td) (tzinfo d)"


text \<open>
  \<open>a < b\<close>: two naive datetimes compare field by field, two aware ones by their UTC
  instants, and a naive one against an aware one raises TypeError.
\<close>

fun lex_less :: "int list \<Rightarrow> int list \<Rightarrow> bool" where
  "lex_less (x # xs) (y # ys) = (x < y \<or> (x = y \<and> lex_less xs ys))"
| "lex_less _ _ = False"

definition cmp_fields :: "datetime \<Rightarrow> int list" where
  "cmp_fields d = [year d, month d, day d, hour d, minute d, second d, microsecond d]"

definition dt_less :: "datetime \<Rightarrow> datetime \<Rightarrow> error + bool" where
  "dt_less a b =
     (case tzinfo a of
        None \<Rightarrow> (case tzinfo b of None \<Rightarrow> Inr (lex_less (cmp_fields a) (cmp_fields b))
                                 | Some ob \<Rightarrow> Inl TypeError)
      | Some oa \<Rightarrow> (case tzinfo b of None \<Rightarrow> Inl TypeError
                                    | Some ob \<Rightarrow> Inr (wall_us a - oa < wall_us b - ob)))"

text \<open>Sequencing of computations that may raise.\<close>

definition and_then :: "error + 'a \<Rightarrow> ('a \<Rightarrow> error + 'b) \<Rightarrow> error + 'b" where
  "and_then r f = (case r of Inl e \<Rightarrow> Inl e | Inr x \<Rightarrow> f x)"

definition some :: "error + 'a \<Rightarrow> error + 'a option" where
  "some r = (case r of Inl e \<Rightarrow> Inl e | Inr x \<Rightarrow> Inr (Some x))"


text \<open>
  \<open>datetime.isoformat()\<close> and \<open>datetime.fromisoformat\<close>. The parser accepts the
  documented grammar \<open>YYYY-MM-DD[*HH[:MM[:SS[.fff[fff]]]][+HH:MM[:SS[.ffffff]]]]\<close>
  and raises ValueError elsewhere.
\<close>

definition format_offset :: "int \<Rightarrow> string" where
  "format_offset off =
     (let a = nat (abs off);
          ss = (a div 1000000) mod 60;
          us = a mod 1000000
      in (if off < 0 then ''-'' else ''+'') @ zero_pad 2 (a div 3600000000) @ '':'' @
         zero_pad 2 ((a div 60000000) mod 60) @
         (if ss \<noteq> 0 \<or> us \<noteq> 0 then '':'' @ zero_pad 2 ss else []) @
         (if us \<noteq> 0 then ''.'' @ zero_pad 6 us else []))"

definition isoformat :: "datetime \<Rightarrow> string" where
  "isoformat d =
     zero_pad 4 (nat (year d)) @ ''-'' @ zero_pad 2 (nat (month d)) @ ''-'' @
     zero_pad 2 (nat (day d)) @ ''T'' @ zero_pad 2 (nat (hour d)) @ '':'' @
     zero_pad 2 (nat (minute d)) @ '':'' @ zero_pad 2 (nat (second d)) @
     (if microsecond d \<noteq> 0 then ''.'' @ zero_pad 6 (nat (microsecond d)) else []) @
     (case tzinfo d of None \<Rightarrow> [] | Some off \<Rightarrow> format_offset off)"

fun parse_digits :: "nat \<Rightarrow> int \<Rightarrow> string \<Rightarrow> (int \<times> string) option" where
  "parse_digits 0 acc s = Some (acc, s)"
| "parse_digits (Suc k) acc [] = None"
| "parse_digits (Suc k) acc (c # cs) =
     (if is_digit c then parse_digits k (acc * 10 + digit_val c) cs else None)"

definition expect_char :: "char \<Rightarrow> string \<Rightarrow> string option" where
  "expect_char c s = (case s of [] \<Rightarrow> None | x # xs \<Rightarrow> if x = c then Some xs else None)"

definition parse_fraction :: "string \<Rightarrow> int option" where
  "parse_fraction s =
     (if length s = 3 then map_option (\<lambda>(f, r). f * 1000) (parse_digits 3 0 s)
      else if length s = 6 then map_option fst (parse_digits 6 0 s)
      else None)"

definition parse_hh_mm_ss_ff :: "string \<Rightarrow> (int \<times> int \<times> int \<times> int) option" where
  "parse_hh_mm_ss_ff s =
     (case parse_digits 2 0 s of
        None \<Rightarrow> None
      | Some (h, r1) \<Rightarrow>
          if r1 = [] then Some (h, 0, 0, 0)
          else (case Option.bind (expect_char CHR '':'' r1) (parse_digits 2 0) of
                  None \<Rightarrow> None
                | Some (m, r2) \<Rightarrow>
                    if r2 = [] then Some (h, m, 0, 0)
                    else (case Option.bind (expect_char CHR '':'' r2) (parse_digits 2 0) of
                            None \<Rightarrow> None
                          | Some (sec, r3) \<Rightarrow>
                              if r3 = [] then Some (h, m, sec, 0)
                              else map_option (\<lambda>f. (h, m, sec, f))
                                     (Option.bind (expect_char CHR ''.'' r3) parse_fraction))))"

definition parse_isoformat_date :: "string \<Rightarrow> (int \<times> int \<times> int) option" where
  "parse_isoformat_date s =
     (case parse_digits 4 0 s of
        None \<Rightarrow> None
      | Some (y, r1) \<Rightarrow>
          (case Option.bind (expect_char CHR ''-'' r1) (parse_digits 2 0) of
             None \<Rightarrow> None
           | Some (m, r2) \<Rightarrow>
               (case Option.bind (expect_char CHR ''-'' r2) (parse_digits 2 0) of
                  None \<Rightarrow> None
                | Some (d, r3) \<Rightarrow> if r3 = [] then Some (y, m, d) else None)))"

definition is_sign :: "char \<Rightarrow> bool" where
  "is_sign c = (c = CHR ''+'' \<or> c = CHR ''-'')"

definition parse_isoformat_tz :: "string \<Rightarrow> int option option" where
  "parse_isoformat_tz s =
     (case s of
        [] \<Rightarrow> Some None
      | sg # tz \<Rightarrow>
          if length tz = 5 \<or> length tz = 8 \<or> length tz = 15 then
            map_option
              (\<lambda>(h, m, sec, us).
                 Some ((if sg = CHR ''-'' then - 1 else 1) *
                       (((h * 60 + m) * 60 + sec) * 1000000 + us)))
              (parse_hh_mm_ss_ff tz)
          else None)"

definition parse_isoformat :: "string \<Rightarrow> datetime option" where
  "parse_isoformat s =
     (case parse_isoformat_date (take 10 s) of
        None \<Rightarrow> None
      | Some (y, m, d) \<Rightarrow>
          if length s = 10 then
            Some \<lparr>year = y, month = m, day = d, hour = 0, minute = 0, second = 0,
                  microsecond = 0, tzinfo = None\<rparr>
          else
            (let t = drop 11 s in
             case parse_hh_mm_ss_ff (takeWhile (\<lambda>c. \<not> is_sign c) t) of
               None \<Rightarrow> None
             | Some (h, mi, sec, us) \<Rightarrow>
                 map_option
                   (\<lambda>tz. \<lparr>year = y, month = m, day = d, hour = h, minute = mi, second = sec,
                          microsecond = us, tzinfo = tz\<rparr>)
                   (parse_isoformat_tz (dropWhile (\<lambda>c. \<not> is_sign c) t))))"

definition fromisoformat :: "string \<Rightarrow> error + datetime" where
  "fromisoformat s = (case parse_isoformat s of None \<Rightarrow> Inl ValueError | Some d \<Rightarrow> new_datetime d)"

section \<open>Recurrence rules (backend/app/services/recurring.py)\<close>




section \<open>Next due date in the recurring-task-service (handlers/task\_completed.py)\<close>

text \<open>
  \<open>re.match(r"every_(\d+)_days?", rule)\<close> and its \<open>weeks\<close> twin: the digits matched by
  the group, when the rule starts with \<open>every_\<close>, digits and the unit word.
\<close>

definition match_every :: "string \<Rightarrow> string \<Rightarrow> string option" where
  "match_every word rule =
     (if startswith rule ''every_'' then
        (let r = drop 6 rule; ds = takeWhile is_digit r
         in if ds \<noteq> [] \<and> startswith (dropWhile is_digit r) (CHR ''_'' # word)
            then Some ds else None)
      else None)"

definition rts_calculate_next_due_date ::
  "string option \<Rightarrow> string option \<Rightarrow> error + datetime option" where
  "rts_calculate_next_due_date current_due_date recurrence_rule =
     (case current_due_date of
        None \<Rightarrow> Inr None
      | Some due \<Rightarrow>
          (case recurrence_rule of
             None \<Rightarrow> Inr None
           | Some rr \<Rightarrow>
               if due = [] \<or> rr = [] then Inr None
               else
                 (case fromisoformat (if endswith due ''Z'' then butlast due @ ''+00:00'' else due) of
                    Inl e \<Rightarrow> (if e = ValueError then Inr None else Inl e)
                  | Inr current \<Rightarrow>
                      (let rule = strip (lower rr) in
                       if rule = ''daily'' then some (and_then (timedelta 1 0 0) (dt_add current))
                       else if rule = ''weekly'' then some (and_then (timedelta 0 0 1) (dt_add current))
                       else if rule = ''monthly'' then some (and_then (timedelta 30 0 0) (dt_add current))
                       else
                         (case match_every ''day'' rule of
                            Some ds \<Rightarrow>
                              some (and_then (py_int ds) (\<lambda>days. and_then (timedelta days 0 0) (dt_add current)))
                          | None \<Rightarrow>
                              (case match_every ''week'' rule of
                                 Some ds \<Rightarrow>
                                   some (and_then (py_int ds)
                                           (\<lambda>weeks. and_then (timedelta 0 0 weeks) (dt_add current)))
                               | None \<Rightarrow> Inr None))))))"

section \<open>Reminder time calculation\<close>


section \<open>Example instants\<close>

definition midnight_utc :: "int \<Rightarrow> int \<Rightarrow> int \<Rightarrow> datetime" where
  "midnight_utc y m d =
     \<lparr>year = y, month = m, day = d, hour = 0, minute = 0, second = 0, microsecond = 0,
      tzinfo = Some 0\<rparr>"

definition naive :: "int \<Rightarrow> int \<Rightarrow> int \<Rightarrow> int \<Rightarrow> int \<Rightarrow> int \<Rightarrow> datetime" where
  "naive y m d hh mm ss =
     \<lparr>year = y, month = m, day = d, hour = hh, minute = mm, second = ss, microsecond = 0,
      tzinfo = None\<rparr>"

section \<open>The rule grammar as the specification words it\<close>






section \<open>JSON values, HTTP calls and observable effects\<close>

text \<open>
  Dictionaries, lists, strings, integers, booleans and None as they travel in request
  bodies, event payloads and handler results. A dictionary is an association list in
  insertion order.
\<close>

datatype json =
    JNull
  | JBool bool
  | JInt int
  | JStr string
  | JList "json list"
  | JObj "(string \<times> json) list"

text \<open>Truth value of an object in \<open>if x\<close>, \<open>x or y\<close>, \<open>x and y\<close>.\<close>

fun truthy :: "json \<Rightarrow> bool" where
  "truthy JNull = False"
| "truthy (JBool b) = b"
| "truthy (JInt n) = (n \<noteq> 0)"
| "truthy (JStr s) = (s \<noteq> [])"
| "truthy (JList xs) = (xs \<noteq> [])"
| "truthy (JObj kvs) = (kvs \<noteq> [])"

text \<open>\<open>d.get(key)\<close>: None for a missing key, AttributeError when \<open>d\<close> is no dictionary.\<close>

definition dict_get :: "json \<Rightarrow> string \<Rightarrow> error + json" where
  "dict_get d k =
     (case d of
        JObj kvs \<Rightarrow> Inr (case map_of kvs k of None \<Rightarrow> JNull | Some v \<Rightarrow> v)
      | _ \<Rightarrow> Inl AttributeError)"

definition opt_str :: "string option \<Rightarrow> json" where
  "opt_str s = (case s of None \<Rightarrow> JNull | Some x \<Rightarrow> JStr x)"

definition opt_int :: "int option \<Rightarrow> json" where
  "opt_int n = (case n of None \<Rightarrow> JNull | Some x \<Rightarrow> JInt x)"

text \<open>\<open>str(x)\<close> and \<open>repr(x)\<close> on these values (ASCII strings).\<close>

fun str_nat :: "nat \<Rightarrow> string" where
  "str_nat n = (if n < 10 then [char_of (48 + n)] else str_nat (n div 10) @ [char_of (48 + n mod 10)])"

definition str_int :: "int \<Rightarrow> string" where
  "str_int i = (if i < 0 then CHR ''-'' # str_nat (nat (- i)) else str_nat (nat i))"

definition hex_digit :: "nat \<Rightarrow> char" where
  "hex_digit n = (if n < 10 then char_of (48 + n) else char_of (87 + n))"

definition repr_char :: "char \<Rightarrow> char \<Rightarrow> string" where
  "repr_char q c =
     (let n = (of_char c :: nat) in
      if c = CHR 0x5C then [CHR 0x5C, CHR 0x5C]
      else if c = q then [CHR 0x5C, q]
      else if n = 9 then [CHR 0x5C, CHR ''t'']
      else if n = 10 then [CHR 0x5C, CHR ''n'']
      else if n = 13 then [CHR 0x5C, CHR ''r'']
      else if n < 32 \<or> n = 127 then [CHR 0x5C, CHR ''x'', hex_digit (n div 16), hex_digit (n mod 16)]
      else [c])"

definition repr_str :: "string \<Rightarrow> string" where
  "repr_str s =
     (let q = (if CHR 0x27 \<in> set s \<and> CHR 0x22 \<notin> set s then CHR 0x22 else CHR 0x27)
      in q # concat (map (repr_char q) s) @ [q])"

fun join :: "string \<Rightarrow> string list \<Rightarrow> string" where
  "join sep [] = []"
| "join sep [x] = x"
| "join sep (x # y # ys) = x @ sep @ join sep (y # ys)"

fun py_repr :: "json \<Rightarrow> string" where
  "py_repr JNull = ''None''"
| "py_repr (JBool b) = (if b then ''True'' else ''False'')"
| "py_repr (JInt n) = str_int n"
| "py_repr (JStr s) = repr_str s"
| "py_repr (JList xs) = ''['' @ join '', '' (map py_repr xs) @ '']''"
| "py_repr (JObj kvs) =
     ''{'' @ join '', '' (map (\<lambda>kv. repr_str (fst kv) @ '': '' @ py_repr (snd kv)) kvs) @ ''}''"

definition py_str :: "json \<Rightarrow> string" where
  "py_str x = (case x of JStr s \<Rightarrow> s | _ \<Rightarrow> py_repr x)"

text \<open>\<open>s.replace(old, new)\<close> for a non-empty \<open>old\<close>, leftmost occurrences first.\<close>

fun replace :: "string \<Rightarrow> string \<Rightarrow> string \<Rightarrow> string" where
  "replace [] old new = []"
| "replace (c # cs) old new =
     (if old \<noteq> [] \<and> startswith (c # cs) old
      then new @ replace (drop (length old - 1) cs) old new
      else c # replace cs old new)"

text \<open>
  An httpx response: its status code, its body text and what \<open>response.json()\<close> yields
  for that body (a value, or the decoder's exception). A request to the Dapr sidecar
  either returns a response or raises; \<open>RequestError\<close> is httpx's class of transport
  errors, which covers refused connections and every timeout. The sidecar is a function
  from the request to this outcome; each operation below sends a given request at most
  once, except the publisher, whose broker is asked once per attempt.
\<close>

record response =
  status_code :: int
  response_text :: string
  response_json :: "error + json"

datatype request =
    GET string
  | POST string json
  | DELETE string

type_synonym sidecar = "request \<Rightarrow> error + response"

text \<open>
  What an operation does to the outside world, in order: the HTTP requests it sends, the
  time it sleeps, the logger calls of the consumer services (by their bracketed tag),
  the drawing of a UUID, and the commit of a database row.
\<close>

datatype effect =
    Request request
  | Sleep real
  | Log string
  | Uuid4
  | Commit json

type_synonym 'a io = "(error + 'a) \<times> effect list"

definition io_return :: "'a \<Rightarrow> 'a io" where
  "io_return x = (Inr x, [])"

definition io_raise :: "error \<Rightarrow> 'a io" where
  "io_raise e = (Inl e, [])"

definition io_lift :: "error + 'a \<Rightarrow> 'a io" where
  "io_lift r = (r, [])"

definition io_emit :: "effect \<Rightarrow> unit io" where
  "io_emit a = (Inr (), [a])"

definition io_bind :: "'a io \<Rightarrow> ('a \<Rightarrow> 'b io) \<Rightarrow> 'b io" where
  "io_bind m f =
     (case m of
        (Inl e, tr) \<Rightarrow> (Inl e, tr)
      | (Inr x, tr) \<Rightarrow> (case f x of (r, tr2) \<Rightarrow> (r, tr @ tr2)))"

definition io_then :: "unit io \<Rightarrow> 'b io \<Rightarrow> 'b io" where
  "io_then m n = io_bind m (\<lambda>u. n)"

text \<open>\<open>try: body except httpx.RequestError: handler\<close>; other exceptions pass through.\<close>

definition except_request_error :: "'a io \<Rightarrow> 'a io \<Rightarrow> 'a io" where
  "except_request_error body handler =
     (case body of
        (Inl e, tr) \<Rightarrow>
          if e = RequestError then (case handler of (r, tr2) \<Rightarrow> (r, tr @ tr2)) else (Inl e, tr)
      | (Inr x, tr) \<Rightarrow> (Inr x, tr))"

definition http :: "sidecar \<Rightarrow> request \<Rightarrow> response io" where
  "http sidecar req = (sidecar req, [Request req])"

text \<open>The module constants, at the defaults of their environment variables.\<close>

definition DAPR_HTTP_PORT :: string where
  "DAPR_HTTP_PORT = ''3500''"

definition DAPR_STATE_STORE :: string where
  "DAPR_STATE_STORE = ''statestore''"

definition DAPR_PUBSUB_NAME :: string where
  "DAPR_PUBSUB_NAME = ''pubsub''"

definition CHAT_API_APP_ID :: string where
  "CHAT_API_APP_ID = ''chat-api''"

definition base_url :: string where
  "base_url = ''http://localhost:'' @ DAPR_HTTP_PORT"

definition state_url :: "string \<Rightarrow> string" where
  "state_url key = base_url @ ''/v1.0/state/'' @ DAPR_STATE_STORE @ ''/'' @ key"

text \<open>\<open>datetime.utcnow()\<close>: the clock's reading as a naive datetime.\<close>

definition utcnow :: "datetime \<Rightarrow> datetime" where
  "utcnow clock = clock\<lparr>tzinfo := None\<rparr>"

definition utcnow_z :: "datetime \<Rightarrow> string" where
  "utcnow_z clock = isoformat (utcnow clock) @ ''Z''"

section \<open>Idempotency checks\<close>

text \<open>\<open>IdempotencyChecker\<close> of chat-api (\<open>app/dapr/idempotency.py\<close>).\<close>

definition get_key :: "string \<Rightarrow> string" where
  "get_key event_id = ''processed:'' @ event_id"

definition is_processed :: "sidecar \<Rightarrow> string \<Rightarrow> bool io" where
  "is_processed sidecar event_id =
     (let key = get_key event_id;
          url = state_url key
      in except_request_error
           (io_bind (http sidecar (GET url))
              (\<lambda>response.
                 if status_code response = 200 \<and> response_text response \<noteq> []
                 then io_return True
                 else io_return False))
           (io_return False))"

text \<open>
  The consumers' checkers (notification-service, audit-service, recurring-task-service)
  are three copies of one class that differ in the key prefix and in the marker they
  write. \<open>is_processed\<close> returns \<open>response.status_code == 200 and response.text\<close>:
  False, or the body text.
\<close>

definition checker_is_processed :: "string \<Rightarrow> sidecar \<Rightarrow> json io" where
  "checker_is_processed key sidecar =
     (let url = state_url key
      in except_request_error
           (io_bind (http sidecar (GET url))
              (\<lambda>response.
                 io_return (if status_code response = 200 then JStr (response_text response)
                            else JBool False)))
           (io_then (io_emit (Log ''[IDEMPOTENCY_CHECK_ERROR]'')) (io_return (JBool False))))"

definition checker_mark_processed :: "string \<Rightarrow> json \<Rightarrow> sidecar \<Rightarrow> bool io" where
  "checker_mark_processed key val sidecar =
     (let url = base_url @ ''/v1.0/state/'' @ DAPR_STATE_STORE;
          state_entry =
            JList [JObj [(''key'', JStr key), (''value'', val),
                         (''metadata'', JObj [(''ttlInSeconds'', JStr (py_str (JInt 86400)))])]]
      in except_request_error
           (io_bind (http sidecar (POST url state_entry))
              (\<lambda>response.
                 io_return (status_code response = 200 \<or> status_code response = 201 \<or>
                            status_code response = 204)))
           (io_then (io_emit (Log ''[IDEMPOTENCY_MARK_ERROR]'')) (io_return False)))"

text \<open>\<open>metadata.get(k) if metadata else None\<close>.\<close>

definition get_if :: "json \<Rightarrow> string \<Rightarrow> error + json" where
  "get_if metadata k = (if truthy metadata then dict_get metadata k else Inr JNull)"

definition notification_key :: "string \<Rightarrow> string" where
  "notification_key event_id = ''notification-processed:'' @ event_id"

definition notification_is_processed :: "sidecar \<Rightarrow> string \<Rightarrow> json io" where
  "notification_is_processed sidecar event_id =
     checker_is_processed (notification_key event_id) sidecar"

definition notification_mark_processed :: "sidecar \<Rightarrow> string \<Rightarrow> json \<Rightarrow> bool io" where
  "notification_mark_processed sidecar event_id metadata =
     io_bind (io_lift (get_if metadata ''processed_at''))
       (\<lambda>processed_at.
          checker_mark_processed (notification_key event_id)
            (JObj [(''event_id'', JStr event_id), (''processed_at'', processed_at)]) sidecar)"

definition audit_key :: "string \<Rightarrow> string" where
  "audit_key event_id = ''audit-processed:'' @ event_id"

definition audit_is_processed :: "sidecar \<Rightarrow> string \<Rightarrow> json io" where
  "audit_is_processed sidecar event_id =
     checker_is_processed (audit_key event_id) sidecar"

definition audit_mark_processed :: "sidecar \<Rightarrow> datetime \<Rightarrow> string \<Rightarrow> string \<Rightarrow> bool io" where
  "audit_mark_processed sidecar clock event_id audit_log_id =
     checker_mark_processed (audit_key event_id)
       (JObj [(''event_id'', JStr event_id), (''audit_log_id'', JStr audit_log_id),
              (''processed_at'', JStr (utcnow_z clock))]) sidecar"

definition recurring_key :: "string \<Rightarrow> string" where
  "recurring_key event_id = ''recurring-processed:'' @ event_id"

definition recurring_is_processed :: "sidecar \<Rightarrow> string \<Rightarrow> json io" where
  "recurring_is_processed sidecar event_id =
     checker_is_processed (recurring_key event_id) sidecar"

definition recurring_mark_processed :: "sidecar \<Rightarrow> string \<Rightarrow> json \<Rightarrow> bool io" where
  "recurring_mark_processed sidecar event_id metadata =
     io_bind (io_lift (get_if metadata ''processed_at''))
       (\<lambda>processed_at.
          io_bind (io_lift (get_if metadata ''next_task_id''))
            (\<lambda>next_task_id.
               checker_mark_processed (recurring_key event_id)
                 (JObj [(''event_id'', JStr event_id), (''processed_at'', processed_at),
                        (''next_task_id'', next_task_id)]) sidecar))"

section \<open>Publishing events (chat-api, services/events.py)\<close>

text \<open>
  The retry configuration read from the environment when the module is loaded
  (\<open>DAPR_ENABLED\<close>, \<open>EVENT_MAX_RETRIES\<close>, \<open>EVENT_RETRY_DELAY\<close>). The delay is a float in
  the source and a real number here. The publisher's logger calls are not recorded.
\<close>

record config =
  DAPR_ENABLED :: bool
  MAX_RETRIES :: int
  RETRY_DELAY_SECONDS :: real

definition default_config :: config where
  "default_config = \<lparr>DAPR_ENABLED = True, MAX_RETRIES = 3, RETRY_DELAY_SECONDS = 1 / 2\<rparr>"

text \<open>
  \<open>_build_event\<close>: \<open>uuid\<close> is what \<open>str(uuid4())\<close> returns when it is called, which
  \<open>event_id or str(uuid4())\<close> does only for a missing or empty \<open>event_id\<close>.
\<close>

definition build_event ::
  "string \<Rightarrow> datetime \<Rightarrow> string \<Rightarrow> string \<Rightarrow> json \<Rightarrow> string option \<Rightarrow> json io" where
  "build_event uuid clock event_type user_id payload event_id =
     io_bind (case event_id of
                None \<Rightarrow> io_then (io_emit Uuid4) (io_return uuid)
              | Some s \<Rightarrow> if s \<noteq> [] then io_return s
                          else io_then (io_emit Uuid4) (io_return uuid))
       (\<lambda>eid.
          io_return
            (JObj [(''event_id'', JStr eid),
                   (''event_type'', JStr event_type),
                   (''timestamp'', JStr (utcnow_z clock)),
                   (''user_id'', JStr user_id),
                   (''payload'', payload),
                   (''source'', JStr ''chat-api''),
                   (''specversion'', JStr ''1.0'')]))"

text \<open>
  The retry loop over \<open>range(1, MAX_RETRIES + 1)\<close>. \<open>broker attempt\<close> is the sidecar as it
  answers during that attempt.
\<close>

definition backoff :: "config \<Rightarrow> int \<Rightarrow> unit io" where
  "backoff cfg attempt =
     (if attempt < MAX_RETRIES cfg
      then io_emit (Sleep (RETRY_DELAY_SECONDS cfg * 2 ^ nat (attempt - 1)))
      else io_return ())"

fun attempts :: "config \<Rightarrow> (int \<Rightarrow> sidecar) \<Rightarrow> string \<Rightarrow> json \<Rightarrow> int list \<Rightarrow> json io" where
  "attempts cfg broker url event [] = io_raise EventPublishError"
| "attempts cfg broker url event (attempt # rest) =
     io_bind
       (except_request_error
          (io_bind (http (broker attempt) (POST url event))
             (\<lambda>response.
                io_return (status_code response = 200 \<or> status_code response = 201 \<or>
                           status_code response = 204)))
          (io_return False))
       (\<lambda>published.
          if published then io_return event
          else io_then (backoff cfg attempt) (attempts cfg broker url event rest))"

definition publish_event ::
  "config \<Rightarrow> string \<Rightarrow> datetime \<Rightarrow> (int \<Rightarrow> sidecar) \<Rightarrow>
   string \<Rightarrow> string \<Rightarrow> string \<Rightarrow> json \<Rightarrow> string option \<Rightarrow> json io" where
  "publish_event cfg uuid clock broker topic event_type user_id payload event_id =
     io_bind (build_event uuid clock event_type user_id payload event_id)
       (\<lambda>event.
          if \<not> DAPR_ENABLED cfg then io_return event
          else
            (let url = base_url @ ''/v1.0/publish/'' @ DAPR_PUBSUB_NAME @ ''/'' @ topic
             in attempts cfg broker url event [1..MAX_RETRIES cfg]))"

section \<open>Reminder jobs (chat-api, services/reminder.py and dapr/client.py)\<close>

text \<open>The logger calls of these two modules are not recorded.\<close>

definition is_reminder_in_past :: "datetime \<Rightarrow> datetime option \<Rightarrow> error + bool" where
  "is_reminder_in_past clock remind_at =
     (case remind_at of None \<Rightarrow> Inr False | Some r \<Rightarrow> dt_less r (utcnow clock))"

definition build_job_name :: "string \<Rightarrow> string" where
  "build_job_name task_id = ''reminder-'' @ task_id"

definition job_url :: "string \<Rightarrow> string" where
  "job_url job_name = base_url @ ''/v1.0-alpha1/jobs/'' @ job_name"

definition schedule_job :: "sidecar \<Rightarrow> string \<Rightarrow> datetime \<Rightarrow> json \<Rightarrow> string \<Rightarrow> bool io" where
  "schedule_job sidecar job_name schedule_time data callback_url =
     (let url = job_url job_name;
          job_spec = JObj [(''schedule'', JStr (''@at '' @ isoformat schedule_time @ ''Z'')),
                           (''data'', data),
                           (''callback'', JObj [(''method'', JStr callback_url)])]
      in except_request_error
           (io_bind (http sidecar (POST url job_spec))
              (\<lambda>response.
                 if status_code response = 200 \<or> status_code response = 201 \<or>
                    status_code response = 204
                 then io_return True else io_return False))
           (io_return False))"

definition cancel_job :: "sidecar \<Rightarrow> string \<Rightarrow> bool io" where
  "cancel_job sidecar job_name =
     (let url = job_url job_name
      in except_request_error
           (io_bind (http sidecar (DELETE url))
              (\<lambda>response.
                 if status_code response = 200 \<or> status_code response = 204 \<or>
                    status_code response = 404
                 then io_return True else io_return False))
           (io_return False))"

definition schedule_reminder_job ::
  "sidecar \<Rightarrow> datetime \<Rightarrow> string \<Rightarrow> string \<Rightarrow> string \<Rightarrow> datetime option \<Rightarrow> datetime \<Rightarrow> bool io" where
  "schedule_reminder_job sidecar clock task_id task_title user_id due_date remind_at =
     io_bind (io_lift (is_reminder_in_past clock (Some remind_at)))
       (\<lambda>past.
          if past then io_return False
          else
            (let job_name = build_job_name task_id;
                 job_data =
                   JObj [(''task_id'', JStr task_id),
                         (''task_title'', JStr task_title),
                         (''user_id'', JStr user_id),
                         (''due_at'', opt_str (map_option (\<lambda>d. isoformat d @ ''Z'') due_date)),
                         (''remind_at'', JStr (isoformat remind_at @ ''Z''))]
             in schedule_job sidecar job_name remind_at job_data ''/api/v1/jobs/reminder-callback''))"

definition cancel_reminder_job :: "sidecar \<Rightarrow> string \<Rightarrow> bool io" where
  "cancel_reminder_job sidecar task_id = cancel_job sidecar (build_job_name task_id)"

definition reschedule_reminder_job ::
  "sidecar \<Rightarrow> datetime \<Rightarrow> string \<Rightarrow> string \<Rightarrow> string \<Rightarrow> datetime option \<Rightarrow>
   datetime option \<Rightarrow> bool io" where
  "reschedule_reminder_job sidecar clock task_id task_title user_id due_date remind_at =
     io_bind (cancel_reminder_job sidecar task_id)
       (\<lambda>cancelled.
          case remind_at of
            Some r \<Rightarrow> schedule_reminder_job sidecar clock task_id task_title user_id due_date r
          | None \<Rightarrow> io_return True)"

section \<open>Service invocation (recurring-task-service, handlers/task\_completed.py)\<close>

text \<open>
  \<open>create_task_via_dapr\<close>: the created task as the chat-api returns it, or None when
  the call fails.
\<close>

definition create_task_via_dapr :: "sidecar \<Rightarrow> string \<Rightarrow> json \<Rightarrow> json io" where
  "create_task_via_dapr sidecar user_id task_data =
     (let url = base_url @ ''/v1.0/invoke/'' @ CHAT_API_APP_ID @ ''/method/api/tasks''
      in except_request_error
           (io_bind (http sidecar (POST url task_data))
              (\<lambda>response.
                 if status_code response = 200 \<or> status_code response = 201 then
                   io_bind (io_lift (response_json response))
                     (\<lambda>result.
                        io_bind (io_lift (dict_get result ''id''))
                          (\<lambda>new_id.
                             io_then (io_emit (Log ''[TASK_CREATED]'')) (io_return result)))
                 else io_then (io_emit (Log ''[TASK_CREATE_FAILED]'')) (io_return JNull)))
           (io_then (io_emit (Log ''[TASK_CREATE_ERROR]'')) (io_return JNull)))"

section \<open>The consumers' handlers\<close>

subsection \<open>notification-service, handlers/reminder.py\<close>

record reminder_event_payload =
  event_id :: string
  event_type :: string
  timestamp :: string
  user_id :: string
  task_id :: string
  task_title :: string
  due_at :: "string option"
  remind_at :: string

definition handle_reminder_event :: "sidecar \<Rightarrow> datetime \<Rightarrow> reminder_event_payload \<Rightarrow> json io" where
  "handle_reminder_event sidecar clock payload =
     (let event_id = reminder_event_payload.event_id payload in
      io_bind (notification_is_processed sidecar event_id)
        (\<lambda>processed.
           if truthy processed then
             io_then (io_emit (Log ''[REMINDER_DUPLICATE]''))
               (io_return (JObj [(''status'', JStr ''duplicate''),
                                 (''event_id'', JStr event_id),
                                 (''message'', JStr ''Event already processed'')]))
           else
             io_then (io_emit (Log ''[NOTIFICATION_STUB]''))
               (io_then
                  (if reminder_event_payload.event_type payload = ''reminder.triggered''
                   then io_emit (Log ''[NOTIFICATION_TRIGGERED]'') else io_return ())
                  (io_bind
                     (notification_mark_processed sidecar event_id
                        (JObj [(''processed_at'', JStr (utcnow_z clock))]))
                     (\<lambda>marked.
                        io_then (io_emit (Log ''[REMINDER_PROCESSED]''))
                          (io_return
                             (JObj [(''status'', JStr ''success''),
                                    (''event_id'', JStr event_id),
                                    (''task_id'', JStr (reminder_event_payload.task_id payload)),
                                    (''message'', JStr ''Notification logged (stubbed)'')])))))))"

subsection \<open>audit-service, handlers/audit\_log.py\<close>

record task_event_payload =
  event_id :: string
  event_type :: string
  timestamp :: string
  user_id :: string
  source :: string
  payload :: json

text \<open>
  \<open>store_audit_entry\<close>: the row is the \<open>AuditLogEntry\<close> with its default \<open>id\<close> (the UUID
  drawn) and \<open>received_at\<close>; \<open>session\<close> is what adding, committing and refreshing the row
  does (nothing, or an exception of the database layer).
\<close>

definition store_audit_entry ::
  "(json \<Rightarrow> error + unit) \<Rightarrow> string \<Rightarrow> datetime \<Rightarrow> task_event_payload \<Rightarrow> json io" where
  "store_audit_entry session uuid clock p =
     (let ts = task_event_payload.timestamp p in
      io_bind
        (case (if endswith ts ''Z'' then fromisoformat (butlast ts)
               else fromisoformat (replace ts ''+00:00'' [])) of
           Inl e \<Rightarrow> if e = ValueError then io_return (utcnow clock) else io_raise e
         | Inr d \<Rightarrow> io_return d)
        (\<lambda>timestamp.
           io_bind (io_lift (dict_get (payload p) ''id''))
             (\<lambda>id0.
                io_bind (if truthy id0 then io_return id0
                         else io_lift (dict_get (payload p) ''task_id''))
                  (\<lambda>task_id.
                     io_then (io_emit Uuid4)
                       (let entry =
                              JObj [(''id'', JStr uuid),
                                    (''event_id'', JStr (task_event_payload.event_id p)),
                                    (''event_type'', JStr (task_event_payload.event_type p)),
                                    (''timestamp'', JStr (isoformat timestamp)),
                                    (''received_at'', JStr (isoformat (utcnow clock))),
                                    (''user_id'', JStr (task_event_payload.user_id p)),
                                    (''task_id'', if truthy task_id then JStr (py_str task_id) else JNull),
                                    (''payload'', payload p),
                                    (''source'', JStr (source p))]
                        in io_then (io_emit (Commit entry))
                             (io_bind (io_lift (session entry))
                                (\<lambda>u. io_then (io_emit (Log ''[AUDIT_STORED]''))
                                        (io_return entry))))))))"

definition handle_audit_event ::
  "sidecar \<Rightarrow> (json \<Rightarrow> error + unit) \<Rightarrow> string \<Rightarrow> datetime \<Rightarrow> task_event_payload \<Rightarrow> json io" where
  "handle_audit_event sidecar session uuid clock p =
     (let event_id = task_event_payload.event_id p in
      io_bind (audit_is_processed sidecar event_id)
        (\<lambda>processed.
           if truthy processed then
             io_then (io_emit (Log ''[AUDIT_DUPLICATE]''))
               (io_return (JObj [(''status'', JStr ''duplicate''),
                                 (''event_id'', JStr event_id),
                                 (''message'', JStr ''Event already audited'')]))
           else
             io_bind (store_audit_entry session uuid clock p)
               (\<lambda>entry.
                  io_bind (io_lift (dict_get entry ''id''))
                    (\<lambda>entry_id.
                       io_bind (audit_mark_processed sidecar clock event_id (py_str entry_id))
                         (\<lambda>marked.
                            io_then (io_emit (Log ''[AUDIT_PROCESSED]''))
                              (io_return
                                 (JObj [(''status'', JStr ''success''),
                                        (''event_id'', JStr event_id),
                                        (''audit_log_id'', JStr (py_str entry_id)),
                                        (''message'', JStr ''Event audited successfully'')])))))))"

subsection \<open>recurring-task-service, handlers/task\_completed.py\<close>

record task_completed_payload =
  event_id :: string
  event_type :: string
  timestamp :: string
  user_id :: string
  task_id :: string
  title :: string
  description :: "string option"
  status :: string
  priority :: string
  due_date :: "string option"
  tags :: "string list"
  reminder_offset_minutes :: "int option"
  is_recurring :: bool
  recurrence_rule :: "string option"
  parent_task_id :: "string option"

definition handle_task_completed_event ::
  "sidecar \<Rightarrow> datetime \<Rightarrow> task_completed_payload \<Rightarrow> json io" where
  "handle_task_completed_event sidecar clock p =
     (let event_id = task_completed_payload.event_id p in
      io_bind (recurring_is_processed sidecar event_id)
        (\<lambda>processed.
           if truthy processed then
             io_then (io_emit (Log ''[TASK_COMPLETED_DUPLICATE]''))
               (io_return (JObj [(''status'', JStr ''duplicate''),
                                 (''event_id'', JStr event_id),
                                 (''message'', JStr ''Event already processed'')]))
           else if \<not> is_recurring p then
             io_then (io_emit (Log ''[TASK_NOT_RECURRING]''))
               (io_bind
                  (recurring_mark_processed sidecar event_id
                     (JObj [(''processed_at'', JStr (utcnow_z clock))]))
                  (\<lambda>marked.
                     io_return
                       (JObj [(''status'', JStr ''success''),
                              (''event_id'', JStr event_id),
                              (''task_id'', JStr (task_completed_payload.task_id p)),
                              (''message'', JStr ''Task is not recurring, no action needed''),
                              (''next_task_created'', JBool False)])))
           else
             io_bind (io_lift (rts_calculate_next_due_date (due_date p) (recurrence_rule p)))
               (\<lambda>next_due_date.
                  case next_due_date of
                    None \<Rightarrow>
                      io_then (io_emit (Log ''[RECURRING_NO_NEXT_DATE]''))
                        (io_bind
                           (recurring_mark_processed sidecar event_id
                              (JObj [(''processed_at'', JStr (utcnow_z clock))]))
                           (\<lambda>marked.
                              io_return
                                (JObj [(''status'', JStr ''success''),
                                       (''event_id'', JStr event_id),
                                       (''task_id'', JStr (task_completed_payload.task_id p)),
                                       (''message'', JStr ''Could not calculate next due date''),
                                       (''next_task_created'', JBool False)])))
                  | Some next_due \<Rightarrow>
                      (let next_task_data =
                             JObj [(''title'', JStr (title p)),
                                   (''description'', opt_str (description p)),
                                   (''priority'', JStr (priority p)),
                                   (''due_date'', JStr (isoformat next_due @ ''Z'')),
                                   (''tags'', JList (map JStr (tags p))),
                                   (''reminder_offset_minutes'', opt_int (reminder_offset_minutes p)),
                                   (''is_recurring'', JBool True),
                                   (''recurrence_rule'', opt_str (recurrence_rule p))]
                       in io_then (io_emit (Log ''[RECURRING_CREATE_NEXT]''))
                            (io_bind
                               (create_task_via_dapr sidecar (task_completed_payload.user_id p)
                                  next_task_data)
                               (\<lambda>next_task.
                                  io_bind (io_lift (get_if next_task ''id''))
                                    (\<lambda>next_task_id.
                                       io_bind
                                         (recurring_mark_processed sidecar event_id
                                            (JObj [(''processed_at'', JStr (utcnow_z clock)),
                                                   (''next_task_id'', next_task_id)]))
                                         (\<lambda>marked.
                                            if truthy next_task then
                                              io_then (io_emit (Log ''[RECURRING_NEXT_CREATED]''))
                                                (io_return
                                                   (JObj [(''status'', JStr ''success''),
                                                          (''event_id'', JStr event_id),
                                                          (''task_id'', JStr (task_completed_payload.task_id p)),
                                                          (''message'', JStr ''Next recurring task created''),
                                                          (''next_task_created'', JBool True),
                                                          (''next_task_id'', next_task_id),
                                                          (''next_due_date'', JStr (isoformat next_due @ ''Z''))]))
                                            else
                                              io_then (io_emit (Log ''[RECURRING_CREATE_FAILED]''))
                                                (io_return
                                                   (JObj [(''status'', JStr ''error''),
                                                          (''event_id'', JStr event_id),
                                                          (''task_id'', JStr (task_completed_payload.task_id p)),
                                                          (''message'', JStr ''Failed to create next recurring task''),
                                                          (''next_task_created'', JBool False)]))))))))))"

section \<open>Broker answers and example environments\<close>




text \<open>A sidecar that cannot be reached, and one that answers every request alike.\<close>

definition unreachable :: sidecar where
  "unreachable = (\<lambda>req. Inl RequestError)"

definition answering :: "int \<Rightarrow> string \<Rightarrow> sidecar" where
  "answering code body =
     (\<lambda>req. Inr \<lparr>status_code = code, response_text = body, response_json = Inl JSONDecodeError\<rparr>)"

definition new_year_2026 :: datetime where
  "new_year_2026 = naive 2026 1 1 0 0 0"

text \<open>The envelope built at the clock's reading 2026-01-01T00:00:00 for an empty payload.\<close>

definition example_event :: "string \<Rightarrow> json" where
  "example_event eid =
     JObj [(''event_id'', JStr eid),
           (''event_type'', JStr ''task.created''),
           (''timestamp'', JStr ''2026-01-01T00:00:00Z''),
           (''user_id'', JStr ''u1''),
           (''payload'', JObj []),
           (''source'', JStr ''chat-api''),
           (''specversion'', JStr ''1.0'')]"

definition example_url :: string where
  "example_url = ''http://localhost:3500/v1.0/publish/pubsub/task-events''"

text \<open>A broker that cannot be reached during the first two attempts and then answers 204.\<close>

definition third_time_lucky :: "int \<Rightarrow> sidecar" where
  "third_time_lucky k = (if k < 3 then unreachable else answering 204 [])"

text \<open>Example payloads of the three consumers, all for the event \<open>evt-1\<close>.\<close>

definition example_reminder :: reminder_event_payload where
  "example_reminder =
     \<lparr>reminder_event_payload.event_id = ''evt-1'',
      reminder_event_payload.event_type = ''reminder.triggered'',
      reminder_event_payload.timestamp = ''2026-01-01T00:00:00Z'',
      reminder_event_payload.user_id = ''u1'',
      reminder_event_payload.task_id = ''t1'',
      task_title = ''Pay rent'',
      due_at = Some ''2026-01-02T00:00:00Z'',
      remind_at = ''2026-01-01T23:30:00Z''\<rparr>"

definition example_task_event :: task_event_payload where
  "example_task_event =
     \<lparr>task_event_payload.event_id = ''evt-1'',
      task_event_payload.event_type = ''task.created'',
      task_event_payload.timestamp = ''2026-01-01T00:00:00Z'',
      task_event_payload.user_id = ''u1'',
      source = ''chat-api'',
      payload = JObj [(''id'', JStr ''t1'')]\<rparr>"

definition example_completed :: task_completed_payload where
  "example_completed =
     \<lparr>task_completed_payload.event_id = ''evt-1'',
      task_completed_payload.event_type = ''task.completed'',
      task_completed_payload.timestamp = ''2026-01-01T00:00:00Z'',
      task_completed_payload.user_id = ''u1'',
      task_completed_payload.task_id = ''t1'',
      title = ''Pay rent'',
      description = None,
      status = ''completed'',
      priority = ''medium'',
      due_date = Some ''2024-01-31T00:00:00Z'',
      tags = [],
      reminder_offset_minutes = None,
      is_recurring = True,
      recurrence_rule = Some ''weekly'',
      parent_task_id = None\<rparr>"

text \<open>A database session whose commit succeeds.\<close>

definition committing :: "json \<Rightarrow> error + unit" where
  "committing row = Inr ()"

(*PROPERTIES*)
section \<open>Properties\<close>

subsection \<open>Recurrence rules and next due dates\<close>




subsection \<open>Parsing recurrence rules\<close>
























text \<open>
  C1 (code defect). The recurring-task-service computes the next due date of a
  \<open>monthly\<close> rule as the due instant plus thirty days: from 2024-01-31T00:00:00Z it
  returns 2024-03-01T00:00:00+00:00, not the last day of February.
\<close>

theorem rts_monthly_adds_thirty_days:
  "rts_calculate_next_due_date (Some ''2024-01-31T00:00:00Z'') (Some ''monthly'') =
     Inr (Some (midnight_utc 2024 3 1))"
  by code_simp



subsection \<open>Idempotency checks\<close>

lemma checker_is_processed_cases:
  "checker_is_processed key sidecar =
     (case sidecar (GET (state_url key)) of
        Inl e \<Rightarrow>
          if e = RequestError
          then (Inr (JBool False), [Request (GET (state_url key)), Log ''[IDEMPOTENCY_CHECK_ERROR]''])
          else (Inl e, [Request (GET (state_url key))])
      | Inr r \<Rightarrow>
          (Inr (if status_code r = 200 then JStr (response_text r) else JBool False),
           [Request (GET (state_url key))]))"
  by (simp add: checker_is_processed_def except_request_error_def io_bind_def http_def
      io_return_def io_then_def io_emit_def Let_def split: sum.splits)

lemma is_processed_cases:
  "is_processed sidecar eid =
     (case sidecar (GET (state_url (get_key eid))) of
        Inl e \<Rightarrow> (if e = RequestError then Inr False else Inl e, [Request (GET (state_url (get_key eid)))])
      | Inr r \<Rightarrow> (Inr (status_code r = 200 \<and> response_text r \<noteq> []), [Request (GET (state_url (get_key eid)))]))"
  by (simp add: is_processed_def except_request_error_def io_bind_def http_def
      io_return_def Let_def split: sum.splits)

text \<open>
  Claim C6. When the state store cannot be reached or times out (the GET raises
  \<open>httpx.RequestError\<close>), \<open>is_processed\<close> returns False after that one request, and it
  never raises the transport error. It returns True exactly when the store answers 200
  with a non-empty body. The consumers' checker (here the notification-service's) also
  returns False on a transport error, and its result is true in a condition exactly when
  the store answers 200 with a non-empty body.
\<close>

theorem is_processed_unreachable_store:
  "(sidecar (GET (state_url (get_key eid))) = Inl RequestError \<longrightarrow>
      is_processed sidecar eid = (Inr False, [Request (GET (state_url (get_key eid)))])) \<and>
   fst (is_processed sidecar eid) \<noteq> Inl RequestError \<and>
   (fst (is_processed sidecar eid) = Inr True \<longleftrightarrow>
      (\<exists>r. sidecar (GET (state_url (get_key eid))) = Inr r \<and> status_code r = 200 \<and>
           response_text r \<noteq> [])) \<and>
   (sidecar (GET (state_url (notification_key eid))) = Inl RequestError \<longrightarrow>
      fst (notification_is_processed sidecar eid) = Inr (JBool False)) \<and>
   fst (notification_is_processed sidecar eid) \<noteq> Inl RequestError \<and>
   ((\<exists>v. fst (notification_is_processed sidecar eid) = Inr v \<and> truthy v) \<longleftrightarrow>
      (\<exists>r. sidecar (GET (state_url (notification_key eid))) = Inr r \<and> status_code r = 200 \<and>
           response_text r \<noteq> []))"
proof -
  have a: "sidecar (GET (state_url (get_key eid))) = Inl RequestError \<longrightarrow>
      is_processed sidecar eid = (Inr False, [Request (GET (state_url (get_key eid)))])"
    by (simp add: is_processed_cases)
  have b: "fst (is_processed sidecar eid) \<noteq> Inl RequestError"
    by (simp add: is_processed_cases split: sum.splits)
  have c: "fst (is_processed sidecar eid) = Inr True \<longleftrightarrow>
      (\<exists>r. sidecar (GET (state_url (get_key eid))) = Inr r \<and> status_code r = 200 \<and>
           response_text r \<noteq> [])"
    by (simp add: is_processed_cases split: sum.splits)
  have d: "sidecar (GET (state_url (notification_key eid))) = Inl RequestError \<longrightarrow>
      fst (notification_is_processed sidecar eid) = Inr (JBool False)"
    by (simp add: notification_is_processed_def checker_is_processed_cases)
  have e: "fst (notification_is_processed sidecar eid) \<noteq> Inl RequestError"
    by (simp add: notification_is_processed_def checker_is_processed_cases split: sum.splits)
  have f: "(\<exists>v. fst (notification_is_processed sidecar eid) = Inr v \<and> truthy v) \<longleftrightarrow>
      (\<exists>r. sidecar (GET (state_url (notification_key eid))) = Inr r \<and> status_code r = 200 \<and>
           response_text r \<noteq> [])"
    by (auto simp add: notification_is_processed_def checker_is_processed_cases split: sum.splits if_splits)
  from a b c d e f show ?thesis by (intro conjI)
qed

theorem is_processed_unreachable_store_witness:
  "is_processed unreachable ''evt-1'' =
     (Inr False, [Request (GET ''http://localhost:3500/v1.0/state/statestore/processed:evt-1'')]) \<and>
   fst (notification_is_processed unreachable ''evt-1'') = Inr (JBool False) \<and>
   fst (is_processed (answering 200 ''{}'') ''evt-1'') = Inr True"
proof -
  note t = is_processed_unreachable_store [of unreachable "''evt-1''"]
  have a: "is_processed unreachable ''evt-1'' =
      (Inr False, [Request (GET (state_url (get_key ''evt-1'')))])"
    by (rule t [THEN conjunct1, THEN mp]) (simp add: unreachable_def)
  have b: "fst (notification_is_processed unreachable ''evt-1'') = Inr (JBool False)"
    by (rule t [THEN conjunct2, THEN conjunct2, THEN conjunct2, THEN conjunct1, THEN mp])
      (simp add: unreachable_def)
  have c: "fst (is_processed (answering 200 ''{}'') ''evt-1'') = Inr True"
    by (rule is_processed_unreachable_store [of "answering 200 ''{}''" "''evt-1''",
          THEN conjunct2, THEN conjunct2, THEN conjunct1, THEN iffD2])
      (simp add: answering_def)
  have u: "state_url (get_key ''evt-1'') = ''http://localhost:3500/v1.0/state/statestore/processed:evt-1''"
    by (simp add: state_url_def get_key_def base_url_def DAPR_HTTP_PORT_def DAPR_STATE_STORE_def)
  from a b c u show ?thesis by simp
qed

subsection \<open>Reminder jobs\<close>

lemma dt_less_naive_aware:
  "tzinfo a \<noteq> None \<Longrightarrow> dt_less a (utcnow clock) = Inl TypeError"
  by (auto simp add: dt_less_def utcnow_def split: option.splits)

lemma schedule_reminder_job_aware:
  "tzinfo remind \<noteq> None \<Longrightarrow>
   schedule_reminder_job sidecar clock tid ttl uid due remind = (Inl TypeError, [])"
  by (simp add: schedule_reminder_job_def is_reminder_in_past_def dt_less_naive_aware
      io_bind_def io_lift_def)

lemma schedule_reminder_job_naive_past:
  "tzinfo remind = None \<Longrightarrow> lex_less (cmp_fields remind) (cmp_fields (utcnow clock)) \<Longrightarrow>
   schedule_reminder_job sidecar clock tid ttl uid due remind = (Inr False, [])"
  by (simp add: schedule_reminder_job_def is_reminder_in_past_def dt_less_def utcnow_def
      io_bind_def io_lift_def io_return_def)

lemma schedule_job_trace:
  "snd (schedule_job sidecar name t data cb) =
     [Request (POST (job_url name)
        (JObj [(''schedule'', JStr (''@at '' @ isoformat t @ ''Z'')), (''data'', data),
               (''callback'', JObj [(''method'', JStr cb)])]))]"
  by (simp add: schedule_job_def except_request_error_def io_bind_def http_def io_return_def
      Let_def split: sum.splits)

lemma schedule_reminder_job_registers_when_not_past:
  "Request r \<in> set (snd (schedule_reminder_job sidecar clock tid ttl uid due remind)) \<Longrightarrow>
   is_reminder_in_past clock (Some remind) = Inr False"
  by (cases "is_reminder_in_past clock (Some remind)")
    (auto simp add: schedule_reminder_job_def io_bind_def io_lift_def io_return_def split: if_splits)

text \<open>
  Claim C8. For a naive \<open>remind_at\<close> before the clock's reading the function returns
  False and sends nothing (\<open>schedule_reminder_job_naive_past\<close>), and a request is only
  sent when \<open>is_reminder_in_past\<close> returned False. For an instant given as a
  timezone-aware datetime the comparison with \<open>datetime.utcnow()\<close> raises: at
  2020-01-01T00:00:00+00:00, six years before the clock's reading, the call ends in
  TypeError instead of returning False.
\<close>

theorem schedule_reminder_job_aware_past_instant:
  "schedule_reminder_job sidecar new_year_2026 ''t1'' ''Pay rent'' ''u1'' None (midnight_utc 2020 1 1) =
     (Inl TypeError, [])"
  by (simp add: schedule_reminder_job_aware midnight_utc_def)

lemma cancel_job_cases:
  "cancel_job sidecar name =
     (case sidecar (DELETE (job_url name)) of
        Inl e \<Rightarrow> (if e = RequestError then Inr False else Inl e, [Request (DELETE (job_url name))])
      | Inr r \<Rightarrow> (Inr (status_code r = 200 \<or> status_code r = 204 \<or> status_code r = 404),
                  [Request (DELETE (job_url name))]))"
  by (simp add: cancel_job_def except_request_error_def io_bind_def http_def io_return_def
      Let_def split: sum.splits)

text \<open>
  Claim C9. With \<open>remind_at = None\<close>, \<open>reschedule_reminder_job\<close> sends exactly the
  request that \<open>cancel_reminder_job\<close> sends, the DELETE of the job named
  \<open>reminder-<task_id>\<close>, and no job creation. It returns True whenever the cancellation
  returns at all, whereas the cancellation returns whether the scheduler answered 200, 204
  or 404 and False on a transport error; another exception leaves both.
\<close>

theorem reschedule_without_remind_at:
  "reschedule_reminder_job sidecar clock tid ttl uid due None =
     (case sidecar (DELETE (job_url (build_job_name tid))) of
        Inl e \<Rightarrow> if e = RequestError then Inr True else Inl e
      | Inr r \<Rightarrow> Inr True,
      [Request (DELETE (job_url (build_job_name tid)))]) \<and>
   cancel_reminder_job sidecar tid =
     (case sidecar (DELETE (job_url (build_job_name tid))) of
        Inl e \<Rightarrow> if e = RequestError then Inr False else Inl e
      | Inr r \<Rightarrow> Inr (status_code r = 200 \<or> status_code r = 204 \<or> status_code r = 404),
      [Request (DELETE (job_url (build_job_name tid)))]) \<and>
   snd (reschedule_reminder_job sidecar clock tid ttl uid due None) =
     snd (cancel_reminder_job sidecar tid) \<and>
   fst (reschedule_reminder_job sidecar clock tid ttl uid due None) =
     (case fst (cancel_reminder_job sidecar tid) of Inl e \<Rightarrow> Inl e | Inr cancelled \<Rightarrow> Inr True)"
  by (simp add: reschedule_reminder_job_def cancel_reminder_job_def cancel_job_cases io_bind_def
      io_return_def split: sum.splits)

text \<open>
  The outcomes differ when the cancellation fails: the scheduler answers 500 to the DELETE
  of \<open>reminder-t1\<close>, \<open>cancel_reminder_job\<close> returns False and \<open>reschedule_reminder_job\<close>
  with \<open>remind_at = None\<close> returns True.
\<close>

theorem reschedule_hides_failed_cancellation:
  "cancel_reminder_job (answering 500 []) ''t1'' =
     (Inr False, [Request (DELETE ''http://localhost:3500/v1.0-alpha1/jobs/reminder-t1'')]) \<and>
   reschedule_reminder_job (answering 500 []) new_year_2026 ''t1'' ''Pay rent'' ''u1'' None None =
     (Inr True, [Request (DELETE ''http://localhost:3500/v1.0-alpha1/jobs/reminder-t1'')])"
  by (simp add: reschedule_reminder_job_def cancel_reminder_job_def cancel_job_cases io_bind_def
      io_return_def answering_def job_url_def build_job_name_def base_url_def DAPR_HTTP_PORT_def)

subsection \<open>Publishing events\<close>

lemma build_event_cases:
  "build_event uuid clock etype uid pl eid =
     (Inr (JObj [(''event_id'', JStr (case eid of None \<Rightarrow> uuid | Some s \<Rightarrow> if s = [] then uuid else s)),
                 (''event_type'', JStr etype),
                 (''timestamp'', JStr (utcnow_z clock)),
                 (''user_id'', JStr uid),
                 (''payload'', pl),
                 (''source'', JStr ''chat-api''),
                 (''specversion'', JStr ''1.0'')]),
      if eid = None \<or> eid = Some [] then [Uuid4] else [])"
  by (simp add: build_event_def io_bind_def io_then_def io_emit_def io_return_def
      split: option.splits)

lemma post_outcome:
  "except_request_error
     (io_bind (http sc (POST url event))
        (\<lambda>response.
           io_return (status_code response = 200 \<or> status_code response = 201 \<or>
                      status_code response = 204)))
     (io_return False) =
   (case sc (POST url event) of
      Inl e \<Rightarrow> if e = RequestError then Inr False else Inl e
    | Inr r \<Rightarrow> Inr (status_code r = 200 \<or> status_code r = 201 \<or> status_code r = 204),
    [Request (POST url event)])"
  by (simp add: except_request_error_def io_bind_def http_def io_return_def split: sum.splits)

lemma attempts_step:
  "attempts cfg broker url event (k # rest) =
     io_bind
       (case broker k (POST url event) of
          Inl e \<Rightarrow> if e = RequestError then Inr False else Inl e
        | Inr r \<Rightarrow> Inr (status_code r = 200 \<or> status_code r = 201 \<or> status_code r = 204),
        [Request (POST url event)])
       (\<lambda>published.
          if published then io_return event
          else io_then (backoff cfg k) (attempts cfg broker url event rest))"
  by (simp only: attempts.simps post_outcome)






lemma length_upto_from_one: "length [1..n] = nat n"
  by simp


lemma attempts_trace:
  "set (snd (attempts cfg broker url event ks)) \<subseteq> insert (Request (POST url event)) (range Sleep)"
proof (induction ks)
  case Nil
  show ?case by (simp add: io_raise_def)
next
  case (Cons k ks)
  obtain r tr where a: "attempts cfg broker url event ks = (r, tr)"
    by (cases "attempts cfg broker url event ks")
  with Cons have "set tr \<subseteq> insert (Request (POST url event)) (range Sleep)" by simp
  with a show ?case
    by (auto simp add: attempts_step io_bind_def io_return_def
        io_then_def backoff_def io_emit_def simp del: attempts.simps split: sum.splits if_splits)
qed

lemma attempts_result:
  "fst (attempts cfg broker url event ks) = Inr e \<Longrightarrow> e = event"
proof (induction ks)
  case Nil
  then show ?case by (simp add: io_raise_def)
next
  case (Cons k ks)
  obtain r tr where a: "attempts cfg broker url event ks = (r, tr)"
    by (cases "attempts cfg broker url event ks")
  with Cons show ?case
    by (auto simp add: attempts_step io_bind_def io_return_def
        io_then_def backoff_def io_emit_def simp del: attempts.simps split: sum.splits if_splits)
qed

lemma publish_event_unfold:
  "build_event uuid clock etype uid pl eid = (Inr event, drawn) \<Longrightarrow>
   url = base_url @ ''/v1.0/publish/'' @ DAPR_PUBSUB_NAME @ ''/'' @ topic \<Longrightarrow>
   publish_event cfg uuid clock broker topic etype uid pl eid =
     (if \<not> DAPR_ENABLED cfg then (Inr event, drawn)
      else (fst (attempts cfg broker url event [1..MAX_RETRIES cfg]),
            drawn @ snd (attempts cfg broker url event [1..MAX_RETRIES cfg])))"
  by (cases "attempts cfg broker url event [1..MAX_RETRIES cfg]")
    (simp add: publish_event_def io_bind_def io_return_def Let_def)




text \<open>
  Claim C5. The envelope's \<open>event_id\<close> is the caller's value when that is a non-empty
  string and the UUID drawn otherwise (for None and for the empty string). The UUID is
  drawn at most once and before any request; everything that follows is a POST of that
  one envelope or a sleep, so every request of the call carries the same \<open>event_id\<close>, and
  an envelope that is returned is that envelope.
\<close>

theorem publish_event_event_id_fixed:
  assumes b: "build_event uuid clock etype uid pl eid = (Inr event, drawn)"
    and u: "url = base_url @ ''/v1.0/publish/'' @ DAPR_PUBSUB_NAME @ ''/'' @ topic"
    and c: "chosen = (case eid of None \<Rightarrow> uuid | Some s \<Rightarrow> if s = [] then uuid else s)"
  shows
    "dict_get event ''event_id'' = Inr (JStr chosen) \<and>
     drawn = (if eid = None \<or> eid = Some [] then [Uuid4] else []) \<and>
     (\<exists>rest. snd (publish_event cfg uuid clock broker topic etype uid pl eid) = drawn @ rest \<and>
             set rest \<subseteq> insert (Request (POST url event)) (range Sleep)) \<and>
     (\<forall>r. Request r \<in> set (snd (publish_event cfg uuid clock broker topic etype uid pl eid)) \<longrightarrow>
          (\<exists>body. r = POST url body \<and> dict_get body ''event_id'' = Inr (JStr chosen))) \<and>
     (\<forall>e. fst (publish_event cfg uuid clock broker topic etype uid pl eid) = Inr e \<longrightarrow> e = event)"
proof -
  note pe = publish_event_unfold [OF b u]
  from b have ev: "event = JObj [(''event_id'', JStr chosen),
                 (''event_type'', JStr etype),
                 (''timestamp'', JStr (utcnow_z clock)),
                 (''user_id'', JStr uid),
                 (''payload'', pl),
                 (''source'', JStr ''chat-api''),
                 (''specversion'', JStr ''1.0'')]"
    and dr: "drawn = (if eid = None \<or> eid = Some [] then [Uuid4] else [])"
    unfolding build_event_cases c by simp_all
  have g: "dict_get event ''event_id'' = Inr (JStr chosen)"
    unfolding ev by (simp add: dict_get_def)
  have t: "set (snd (attempts cfg broker url event [1..MAX_RETRIES cfg])) \<subseteq>
      insert (Request (POST url event)) (range Sleep)"
    by (rule attempts_trace)
  have r: "\<exists>rest. snd (publish_event cfg uuid clock broker topic etype uid pl eid) = drawn @ rest \<and>
             set rest \<subseteq> insert (Request (POST url event)) (range Sleep)"
  proof (cases "DAPR_ENABLED cfg")
    case True
    with t show ?thesis unfolding pe by simp
  next
    case False
    then show ?thesis unfolding pe by simp
  qed
  have q: "\<forall>r. Request r \<in> set (snd (publish_event cfg uuid clock broker topic etype uid pl eid)) \<longrightarrow>
          (\<exists>body. r = POST url body \<and> dict_get body ''event_id'' = Inr (JStr chosen))"
  proof (intro allI impI)
    fix x
    assume x: "Request x \<in> set (snd (publish_event cfg uuid clock broker topic etype uid pl eid))"
    from r obtain rest where
      s: "snd (publish_event cfg uuid clock broker topic etype uid pl eid) = drawn @ rest"
      and i: "set rest \<subseteq> insert (Request (POST url event)) (range Sleep)"
      by blast
    from x s dr have "Request x \<in> set rest" by (simp split: if_splits)
    with i have "x = POST url event" by auto
    with g show "\<exists>body. x = POST url body \<and> dict_get body ''event_id'' = Inr (JStr chosen)"
      by blast
  qed
  have f: "\<forall>e. fst (publish_event cfg uuid clock broker topic etype uid pl eid) = Inr e \<longrightarrow> e = event"
    unfolding pe by (auto dest: attempts_result)
  from g dr r q f show ?thesis by (intro conjI)
qed

theorem publish_event_event_id_fixed_witness:
  "dict_get (example_event ''evt-7'') ''event_id'' = Inr (JStr ''evt-7'') \<and>
   (\<exists>rest. snd (publish_event default_config ''uuid-1'' new_year_2026 third_time_lucky
                  ''task-events'' ''task.created'' ''u1'' (JObj []) (Some ''evt-7'')) = [] @ rest \<and>
           set rest \<subseteq> insert (Request (POST example_url (example_event ''evt-7''))) (range Sleep)) \<and>
   fst (publish_event default_config ''uuid-1'' new_year_2026 third_time_lucky
          ''task-events'' ''task.created'' ''u1'' (JObj []) (Some ''evt-7'')) =
     Inr (example_event ''evt-7'')"
proof -
  have b: "build_event ''uuid-1'' new_year_2026 ''task.created'' ''u1'' (JObj []) (Some ''evt-7'') =
      (Inr (example_event ''evt-7''), [])"
    by code_simp
  have u: "example_url = base_url @ ''/v1.0/publish/'' @ DAPR_PUBSUB_NAME @ ''/'' @ ''task-events''"
    by code_simp
  have c: "''evt-7'' = (case Some ''evt-7'' of None \<Rightarrow> ''uuid-1'' | Some s \<Rightarrow> if s = [] then ''uuid-1'' else s)"
    by simp
  note t = publish_event_event_id_fixed [OF b u c, of default_config third_time_lucky]
  obtain e where e: "fst (publish_event default_config ''uuid-1'' new_year_2026 third_time_lucky
          ''task-events'' ''task.created'' ''u1'' (JObj []) (Some ''evt-7'')) = Inr e"
    by (simp add: publish_event_unfold [OF b u] default_config_def upto_rec1 attempts_step
        third_time_lucky_def unreachable_def answering_def io_bind_def io_then_def io_return_def
        backoff_def io_emit_def del: attempts.simps(2))
  from t [THEN conjunct2, THEN conjunct2, THEN conjunct2, THEN conjunct2, THEN spec, THEN mp, OF e] e
  have f: "fst (publish_event default_config ''uuid-1'' new_year_2026 third_time_lucky
          ''task-events'' ''task.created'' ''u1'' (JObj []) (Some ''evt-7'')) =
     Inr (example_event ''evt-7'')"
    by simp
  from t [THEN conjunct1] t [THEN conjunct2, THEN conjunct2, THEN conjunct1] f
  show ?thesis by (intro conjI)
qed

text \<open>
  A caller that supplies the empty string as \<open>event_id\<close> does not get its value: the
  envelope carries the UUID drawn.
\<close>

theorem publish_event_replaces_empty_event_id:
  "publish_event default_config ''uuid-1'' new_year_2026 (\<lambda>k. answering 204 [])
      ''task-events'' ''task.created'' ''u1'' (JObj []) (Some []) =
     (Inr (example_event ''uuid-1''),
      [Uuid4, Request (POST example_url (example_event ''uuid-1''))]) \<and>
   dict_get (example_event ''uuid-1'') ''event_id'' = Inr (JStr ''uuid-1'')"
  by code_simp

subsection \<open>The duplicate path of the consumers\<close>

lemma checker_reports_processed:
  assumes "fst (checker_is_processed key sidecar) = Inr v" and "truthy v"
  shows "checker_is_processed key sidecar = (Inr v, [Request (GET (state_url key))])"
  using assms
  by (cases "sidecar (GET (state_url key))")
    (auto simp add: checker_is_processed_cases split: if_splits)

lemma handle_reminder_event_duplicate:
  assumes "fst (notification_is_processed sidecar (reminder_event_payload.event_id p)) = Inr v"
    and "truthy v"
  shows "handle_reminder_event sidecar clock p =
     (Inr (JObj [(''status'', JStr ''duplicate''),
                 (''event_id'', JStr (reminder_event_payload.event_id p)),
                 (''message'', JStr ''Event already processed'')]),
      [Request (GET (state_url (notification_key (reminder_event_payload.event_id p)))),
       Log ''[REMINDER_DUPLICATE]''])"
proof -
  from assms have "notification_is_processed sidecar (reminder_event_payload.event_id p) =
      (Inr v, [Request (GET (state_url (notification_key (reminder_event_payload.event_id p))))])"
    unfolding notification_is_processed_def by (rule checker_reports_processed)
  with assms(2) show ?thesis
    by (simp add: handle_reminder_event_def Let_def io_bind_def io_then_def io_emit_def
        io_return_def)
qed

lemma handle_audit_event_duplicate:
  assumes "fst (audit_is_processed sidecar (task_event_payload.event_id p)) = Inr v"
    and "truthy v"
  shows "handle_audit_event sidecar session uuid clock p =
     (Inr (JObj [(''status'', JStr ''duplicate''),
                 (''event_id'', JStr (task_event_payload.event_id p)),
                 (''message'', JStr ''Event already audited'')]),
      [Request (GET (state_url (audit_key (task_event_payload.event_id p)))),
       Log ''[AUDIT_DUPLICATE]''])"
proof -
  from assms have "audit_is_processed sidecar (task_event_payload.event_id p) =
      (Inr v, [Request (GET (state_url (audit_key (task_event_payload.event_id p))))])"
    unfolding audit_is_processed_def by (rule checker_reports_processed)
  with assms(2) show ?thesis
    by (simp add: handle_audit_event_def Let_def io_bind_def io_then_def io_emit_def
        io_return_def)
qed

lemma handle_task_completed_event_duplicate:
  assumes "fst (recurring_is_processed sidecar (task_completed_payload.event_id p)) = Inr v"
    and "truthy v"
  shows "handle_task_completed_event sidecar clock p =
     (Inr (JObj [(''status'', JStr ''duplicate''),
                 (''event_id'', JStr (task_completed_payload.event_id p)),
                 (''message'', JStr ''Event already processed'')]),
      [Request (GET (state_url (recurring_key (task_completed_payload.event_id p)))),
       Log ''[TASK_COMPLETED_DUPLICATE]''])"
proof -
  from assms have "recurring_is_processed sidecar (task_completed_payload.event_id p) =
      (Inr v, [Request (GET (state_url (recurring_key (task_completed_payload.event_id p))))])"
    unfolding recurring_is_processed_def by (rule checker_reports_processed)
  with assms(2) show ?thesis
    by (simp add: handle_task_completed_event_def Let_def io_bind_def io_then_def io_emit_def
        io_return_def)
qed

text \<open>
  Claim C3. When the consumer's idempotency check reports the event as processed (its
  result is true in a condition), each of the three handlers returns the result with
  status \<open>duplicate\<close>, and all it has done is that one GET of the marker and one log line
  saying so: no marker is written, no audit row is committed, no notification line is
  logged and no task creation is requested.
\<close>

theorem duplicate_event_changes_nothing:
  "((\<exists>v. fst (notification_is_processed sidecar (reminder_event_payload.event_id rp)) = Inr v \<and>
         truthy v) \<longrightarrow>
      handle_reminder_event sidecar clock rp =
        (Inr (JObj [(''status'', JStr ''duplicate''),
                    (''event_id'', JStr (reminder_event_payload.event_id rp)),
                    (''message'', JStr ''Event already processed'')]),
         [Request (GET (state_url (notification_key (reminder_event_payload.event_id rp)))),
          Log ''[REMINDER_DUPLICATE]''])) \<and>
   ((\<exists>v. fst (audit_is_processed sidecar (task_event_payload.event_id ap)) = Inr v \<and>
         truthy v) \<longrightarrow>
      handle_audit_event sidecar session uuid clock ap =
        (Inr (JObj [(''status'', JStr ''duplicate''),
                    (''event_id'', JStr (task_event_payload.event_id ap)),
                    (''message'', JStr ''Event already audited'')]),
         [Request (GET (state_url (audit_key (task_event_payload.event_id ap)))),
          Log ''[AUDIT_DUPLICATE]''])) \<and>
   ((\<exists>v. fst (recurring_is_processed sidecar (task_completed_payload.event_id cp)) = Inr v \<and>
         truthy v) \<longrightarrow>
      handle_task_completed_event sidecar clock cp =
        (Inr (JObj [(''status'', JStr ''duplicate''),
                    (''event_id'', JStr (task_completed_payload.event_id cp)),
                    (''message'', JStr ''Event already processed'')]),
         [Request (GET (state_url (recurring_key (task_completed_payload.event_id cp)))),
          Log ''[TASK_COMPLETED_DUPLICATE]'']))"
proof (intro conjI impI)
  assume "\<exists>v. fst (notification_is_processed sidecar (reminder_event_payload.event_id rp)) = Inr v \<and>
         truthy v"
  then obtain v where "fst (notification_is_processed sidecar (reminder_event_payload.event_id rp)) = Inr v"
    and "truthy v" by (elim exE conjE)
  then show "handle_reminder_event sidecar clock rp =
        (Inr (JObj [(''status'', JStr ''duplicate''),
                    (''event_id'', JStr (reminder_event_payload.event_id rp)),
                    (''message'', JStr ''Event already processed'')]),
         [Request (GET (state_url (notification_key (reminder_event_payload.event_id rp)))),
          Log ''[REMINDER_DUPLICATE]''])"
    by (rule handle_reminder_event_duplicate)
next
  assume "\<exists>v. fst (audit_is_processed sidecar (task_event_payload.event_id ap)) = Inr v \<and>
         truthy v"
  then obtain v where "fst (audit_is_processed sidecar (task_event_payload.event_id ap)) = Inr v"
    and "truthy v" by (elim exE conjE)
  then show "handle_audit_event sidecar session uuid clock ap =
        (Inr (JObj [(''status'', JStr ''duplicate''),
                    (''event_id'', JStr (task_event_payload.event_id ap)),
                    (''message'', JStr ''Event already audited'')]),
         [Request (GET (state_url (audit_key (task_event_payload.event_id ap)))),
          Log ''[AUDIT_DUPLICATE]''])"
    by (rule handle_audit_event_duplicate)
next
  assume "\<exists>v. fst (recurring_is_processed sidecar (task_completed_payload.event_id cp)) = Inr v \<and>
         truthy v"
  then obtain v where "fst (recurring_is_processed sidecar (task_completed_payload.event_id cp)) = Inr v"
    and "truthy v" by (elim exE conjE)
  then show "handle_task_completed_event sidecar clock cp =
        (Inr (JObj [(''status'', JStr ''duplicate''),
                    (''event_id'', JStr (task_completed_payload.event_id cp)),
                    (''message'', JStr ''Event already processed'')]),
         [Request (GET (state_url (recurring_key (task_completed_payload.event_id cp)))),
          Log ''[TASK_COMPLETED_DUPLICATE]''])"
    by (rule handle_task_completed_event_duplicate)
qed

lemma example_checks:
  "fst (notification_is_processed (answering 200 ''{}'') ''evt-1'') = Inr (JStr ''{}'')"
  "fst (audit_is_processed (answering 200 ''{}'') ''evt-1'') = Inr (JStr ''{}'')"
  "fst (recurring_is_processed (answering 200 ''{}'') ''evt-1'') = Inr (JStr ''{}'')"
  by (simp_all add: notification_is_processed_def audit_is_processed_def
      recurring_is_processed_def checker_is_processed_cases answering_def)

theorem duplicate_event_changes_nothing_witness:
  "handle_reminder_event (answering 200 ''{}'') new_year_2026 example_reminder =
     (Inr (JObj [(''status'', JStr ''duplicate''), (''event_id'', JStr ''evt-1''),
                 (''message'', JStr ''Event already processed'')]),
      [Request (GET ''http://localhost:3500/v1.0/state/statestore/notification-processed:evt-1''),
       Log ''[REMINDER_DUPLICATE]'']) \<and>
   handle_audit_event (answering 200 ''{}'') committing ''uuid-1'' new_year_2026 example_task_event =
     (Inr (JObj [(''status'', JStr ''duplicate''), (''event_id'', JStr ''evt-1''),
                 (''message'', JStr ''Event already audited'')]),
      [Request (GET ''http://localhost:3500/v1.0/state/statestore/audit-processed:evt-1''),
       Log ''[AUDIT_DUPLICATE]'']) \<and>
   handle_task_completed_event (answering 200 ''{}'') new_year_2026 example_completed =
     (Inr (JObj [(''status'', JStr ''duplicate''), (''event_id'', JStr ''evt-1''),
                 (''message'', JStr ''Event already processed'')]),
      [Request (GET ''http://localhost:3500/v1.0/state/statestore/recurring-processed:evt-1''),
       Log ''[TASK_COMPLETED_DUPLICATE]''])"
proof -
  note t = duplicate_event_changes_nothing [of "answering 200 ''{}''" example_reminder
      new_year_2026 example_task_event committing "''uuid-1''" example_completed]
  have i: "reminder_event_payload.event_id example_reminder = ''evt-1''"
    "task_event_payload.event_id example_task_event = ''evt-1''"
    "task_completed_payload.event_id example_completed = ''evt-1''"
    by (simp_all add: example_reminder_def example_task_event_def example_completed_def)
  have u: "state_url (notification_key ''evt-1'') =
      ''http://localhost:3500/v1.0/state/statestore/notification-processed:evt-1''"
    "state_url (audit_key ''evt-1'') =
      ''http://localhost:3500/v1.0/state/statestore/audit-processed:evt-1''"
    "state_url (recurring_key ''evt-1'') =
      ''http://localhost:3500/v1.0/state/statestore/recurring-processed:evt-1''"
    by (simp_all add: state_url_def notification_key_def audit_key_def recurring_key_def
        base_url_def DAPR_HTTP_PORT_def DAPR_STATE_STORE_def)
  have a: "handle_reminder_event (answering 200 ''{}'') new_year_2026 example_reminder =
     (Inr (JObj [(''status'', JStr ''duplicate''),
                 (''event_id'', JStr (reminder_event_payload.event_id example_reminder)),
                 (''message'', JStr ''Event already processed'')]),
      [Request (GET (state_url (notification_key (reminder_event_payload.event_id example_reminder)))),
       Log ''[REMINDER_DUPLICATE]''])"
    by (rule t [THEN conjunct1, THEN mp]) (simp add: i example_checks)
  have b: "handle_audit_event (answering 200 ''{}'') committing ''uuid-1'' new_year_2026 example_task_event =
     (Inr (JObj [(''status'', JStr ''duplicate''),
                 (''event_id'', JStr (task_event_payload.event_id example_task_event)),
                 (''message'', JStr ''Event already audited'')]),
      [Request (GET (state_url (audit_key (task_event_payload.event_id example_task_event)))),
       Log ''[AUDIT_DUPLICATE]''])"
    by (rule t [THEN conjunct2, THEN conjunct1, THEN mp]) (simp add: i example_checks)
  have c: "handle_task_completed_event (answering 200 ''{}'') new_year_2026 example_completed =
     (Inr (JObj [(''status'', JStr ''duplicate''),
                 (''event_id'', JStr (task_completed_payload.event_id example_completed)),
                 (''message'', JStr ''Event already processed'')]),
      [Request (GET (state_url (recurring_key (task_completed_payload.event_id example_completed)))),
       Log ''[TASK_COMPLETED_DUPLICATE]''])"
    by (rule t [THEN conjunct2, THEN conjunct2, THEN mp]) (simp add: i example_checks)
  from a b c show ?thesis
    unfolding i u by (intro conjI)
qed

end
